theory Spec2Isabelle
  imports Complex_Main
begin

section \<open>The water-balance simulation of model.py\<close>

text \<open>
  Python floats are read as real numbers: every sum, product and comparison below is the
  exact one, so rounding error of binary floating point is outside this development.
  Python ints are \<^typ>\<open>int\<close>. The \<open>verbose\<close> flag of \<open>simulate\<close> only prints
  snapshot lines and changes no computed value; printing is not modelled.
\<close>

subsection \<open>Configuration and static data\<close>

text \<open>The dictionary \<open>CONFIG\<close>: one field for each of its keys.\<close>

record config =
  catchment_area_m2 :: real
  rainfall_mm_per_day :: real
  runoff_coefficient :: real
  household_size :: int
  daily_water_use_L :: real
  greywater_fraction :: real
  greywater_recovery_rate :: real
  treatment_efficiency :: real
  storage_capacity_L :: real
  cost_per_litre_INR :: real
  simulation_days :: int

definition CONFIG :: config where
  "CONFIG = \<lparr> catchment_area_m2 = 500, rainfall_mm_per_day = 80,
     runoff_coefficient = 85 / 100, household_size = 5, daily_water_use_L = 135,
     greywater_fraction = 65 / 100, greywater_recovery_rate = 75 / 100,
     treatment_efficiency = 92 / 100, storage_capacity_L = 40000,
     cost_per_litre_INR = 9 / 100, simulation_days = 365 \<rparr>"

text \<open>The dictionary \<open>MONTHLY_RAINFALL\<close>, keys 1 to 12.\<close>

definition MONTHLY_RAINFALL :: "int \<rightharpoonup> real" where
  "MONTHLY_RAINFALL = map_of
     [(1, 12 / 10), (2, 8 / 10), (3, 1), (4, 21 / 10), (5, 35 / 10), (6, 42 / 10),
      (7, 58 / 10), (8, 61 / 10), (9, 73 / 10), (10, 85 / 10), (11, 92 / 10), (12, 41 / 10)]"

subsection \<open>The process-wide random generator\<close>

text \<open>
  The module \<open>random\<close> of the Python library is a parameter: \<open>'g\<close> is the state of the
  process-wide generator, \<open>seed\<close> gives the state that \<open>random.seed(n)\<close> installs, and
  \<open>gauss mu sigma g\<close> is the draw of \<open>random.gauss(mu, sigma)\<close> in state \<open>g\<close> together
  with the state it leaves behind.
\<close>

record 'g pyrandom =
  seed :: "int \<Rightarrow> 'g"
  gauss :: "real \<Rightarrow> real \<Rightarrow> 'g \<Rightarrow> real \<times> 'g"

text \<open>
  A stand-in generator for evaluating the model at concrete inputs: the state counts the
  draws since seeding and every draw returns the mean.
\<close>

definition mean_random :: "nat pyrandom" where
  "mean_random = \<lparr> seed = (\<lambda>n. 0), gauss = (\<lambda>mu sigma g. (mu, Suc g)) \<rparr>"

subsection \<open>Helper functions\<close>

text \<open>The month that \<open>get_monthly_rainfall\<close> selects (line 37).\<close>

definition rainfall_month :: "int \<Rightarrow> int" where
  "rainfall_month day_of_year = min 12 (max 1 (day_of_year div 30 + 1))"

definition get_monthly_rainfall :: "'g pyrandom \<Rightarrow> int \<Rightarrow> real \<Rightarrow> 'g \<Rightarrow> real \<times> 'g" where
  "get_monthly_rainfall R day_of_year base g =
     (let month = rainfall_month day_of_year;
          factor = the (MONTHLY_RAINFALL month) / 5;
          (noise, g') = gauss R 1 (15 / 100) g
      in (max 0 (base * factor * noise), g'))"

text \<open>
  The month index of the snapshot line of \<open>simulate\<close> (line 100) and the month to which
  \<open>print_monthly_breakdown\<close> assigns a logged day (line 221: month \<open>m\<close>, counted from 0,
  holds the days with \<open>m * 30 < day \<le> (m + 1) * 30\<close>).
\<close>

definition snapshot_month_index :: "int \<Rightarrow> int" where
  "snapshot_month_index day = ((day - 1) div 30) mod 12"

definition in_breakdown_month :: "int \<Rightarrow> int \<Rightarrow> bool" where
  "in_breakdown_month m day \<longleftrightarrow> m * 30 < day \<and> day \<le> (m + 1) * 30"

definition calculate_rainwater :: "real \<Rightarrow> real \<Rightarrow> real \<Rightarrow> real" where
  "calculate_rainwater rainfall_mm area_m2 rc = rainfall_mm * area_m2 * rc"

definition calculate_greywater :: "int \<Rightarrow> real \<Rightarrow> real \<Rightarrow> real \<Rightarrow> real" where
  "calculate_greywater hh daily_use_L gw_frac gw_rec =
     (let greywater_generated = of_int hh * daily_use_L * gw_frac
      in greywater_generated * gw_rec)"

definition apply_treatment :: "real \<Rightarrow> real \<Rightarrow> real" where
  "apply_treatment raw_litres efficiency = raw_litres * efficiency"

text \<open>Python's \<open>round(x, n)\<close> on a float: to \<open>n\<close> decimals, ties to the even neighbour.\<close>

definition round_half_even :: "real \<Rightarrow> int" where
  "round_half_even x =
     (let f = \<lfloor>x\<rfloor>; r = x - of_int f
      in if r < 1 / 2 then f else if 1 / 2 < r then f + 1
         else if even f then f else f + 1)"

definition py_round :: "real \<Rightarrow> nat \<Rightarrow> real" where
  "py_round x n = of_int (round_half_even (x * 10 ^ n)) / 10 ^ n"

subsection \<open>The day loop\<close>

record day_record =
  day :: int
  rainfall_L :: real
  greywater_L :: real
  treated_L :: real
  storage_L :: real
  deficit_L :: real

text \<open>The local variables of \<open>simulate\<close> that live across the loop, and the generator.\<close>

record 'g sim_state =
  rng :: 'g
  total_rainwater :: real
  total_greywater :: real
  total_treated :: real
  total_demand :: real
  total_deficit :: real
  total_overflow :: real
  storage :: real
  daily_log :: "day_record list"

text \<open>The quantities of one day that do not depend on the tank (lines 74 to 80).\<close>

definition day_rain_L :: "'g pyrandom \<Rightarrow> config \<Rightarrow> int \<Rightarrow> 'g \<Rightarrow> real" where
  "day_rain_L R c dy g =
     calculate_rainwater (fst (get_monthly_rainfall R dy (rainfall_mm_per_day c) g))
       (catchment_area_m2 c) (runoff_coefficient c)"

definition day_grey_L :: "config \<Rightarrow> real" where
  "day_grey_L c =
     calculate_greywater (household_size c) (daily_water_use_L c)
       (greywater_fraction c) (greywater_recovery_rate c)"

definition day_treated :: "'g pyrandom \<Rightarrow> config \<Rightarrow> int \<Rightarrow> 'g \<Rightarrow> real" where
  "day_treated R c dy g =
     apply_treatment (day_rain_L R c dy g + day_grey_L c) (treatment_efficiency c)"

definition day_demand :: "config \<Rightarrow> real" where
  "day_demand c = of_int (household_size c) * daily_water_use_L c"

text \<open>The storage dynamics of one day (lines 83 to 90), on the tank level alone.\<close>

definition filled :: "real \<Rightarrow> real \<Rightarrow> real \<Rightarrow> real" where
  "filled cap s treated = (if s + treated > cap then cap else s + treated)"

definition spilled :: "real \<Rightarrow> real \<Rightarrow> real \<Rightarrow> real" where
  "spilled cap s treated = (if s + treated > cap then s + treated - cap else 0)"

definition day_supply :: "real \<Rightarrow> real \<Rightarrow> real \<Rightarrow> real \<Rightarrow> real" where
  "day_supply cap s treated demand = min (filled cap s treated) demand"

definition day_deficit :: "real \<Rightarrow> real \<Rightarrow> real \<Rightarrow> real \<Rightarrow> real" where
  "day_deficit cap s treated demand = max 0 (demand - day_supply cap s treated demand)"

definition storage_after :: "real \<Rightarrow> real \<Rightarrow> real \<Rightarrow> real \<Rightarrow> real" where
  "storage_after cap s treated demand =
     filled cap s treated - day_supply cap s treated demand"

text \<open>One iteration of the loop body (lines 74 to 108).\<close>

definition day_step :: "'g pyrandom \<Rightarrow> config \<Rightarrow> int \<Rightarrow> 'g sim_state \<Rightarrow> 'g sim_state" where
  "day_step R c dy st =
     (let g = rng st;
          cap = storage_capacity_L c;
          rain_L = day_rain_L R c dy g;
          grey_L = day_grey_L c;
          treated = day_treated R c dy g;
          demand = day_demand c;
          deficit = day_deficit cap (storage st) treated demand;
          storage' = storage_after cap (storage st) treated demand
      in \<lparr> rng = snd (get_monthly_rainfall R dy (rainfall_mm_per_day c) g),
           total_rainwater = total_rainwater st + rain_L,
           total_greywater = total_greywater st + grey_L,
           total_treated = total_treated st + treated,
           total_demand = total_demand st + demand,
           total_deficit = total_deficit st + deficit,
           total_overflow = total_overflow st + spilled cap (storage st) treated,
           storage = storage',
           daily_log = daily_log st @
             [\<lparr> day = dy, rainfall_L = rain_L, greywater_L = grey_L,
                treated_L = treated, storage_L = storage', deficit_L = deficit \<rparr>] \<rparr>)"

text \<open>The state before the first day (lines 60 to 71): the generator is reseeded with 42.\<close>

definition init_state :: "'g pyrandom \<Rightarrow> config \<Rightarrow> 'g sim_state" where
  "init_state R c =
     \<lparr> rng = seed R 42, total_rainwater = 0, total_greywater = 0, total_treated = 0,
       total_demand = 0, total_deficit = 0, total_overflow = 0,
       storage = storage_capacity_L c * (30 / 100), daily_log = [] \<rparr>"

text \<open>The loop over the given days, in order.\<close>

definition run_days :: "'g pyrandom \<Rightarrow> config \<Rightarrow> int list \<Rightarrow> 'g sim_state \<Rightarrow> 'g sim_state" where
  "run_days R c ds st = foldl (\<lambda>s dy. day_step R c dy s) st ds"

subsection \<open>The summary and the entry point\<close>

datatype error = ZeroDivisionError

record result =
  total_rainwater_L :: real
  total_greywater_L :: real
  total_treated_L :: real
  total_demand_L :: real
  total_deficit_L :: real
  total_overflow_L :: real
  supply_rate_pct :: real
  annual_cost_saved_INR :: real
  co2_offset_kg :: real
  avg_daily_recovery_L :: real
  self_sufficiency_pct :: real
  result_daily_log :: "day_record list"

text \<open>
  Lines 111 to 131. The two divisions raise \<open>ZeroDivisionError\<close> on a zero divisor, the
  one by \<open>total_demand\<close> first.
\<close>

definition summarize :: "config \<Rightarrow> 'g sim_state \<Rightarrow> error + result" where
  "summarize c st =
     (if total_demand st = 0 then Inl ZeroDivisionError
      else if simulation_days c = 0 then Inl ZeroDivisionError
      else
        (let total_supply = total_treated st;
             supply_rate = total_supply / total_demand st * 100;
             annual_cost_saved = total_treated st * cost_per_litre_INR c;
             co2_offset = total_treated st * (1 / 1000) * (5 / 10);
             avg_daily_recovery = total_treated st / of_int (simulation_days c);
             self_sufficiency = min 100 supply_rate
         in Inr \<lparr> total_rainwater_L = py_round (total_rainwater st) 0,
                  total_greywater_L = py_round (total_greywater st) 0,
                  total_treated_L = py_round (total_treated st) 0,
                  total_demand_L = py_round (total_demand st) 0,
                  total_deficit_L = py_round (total_deficit st) 0,
                  total_overflow_L = py_round (total_overflow st) 0,
                  supply_rate_pct = py_round supply_rate 1,
                  annual_cost_saved_INR = py_round annual_cost_saved 2,
                  co2_offset_kg = py_round co2_offset 1,
                  avg_daily_recovery_L = py_round avg_daily_recovery 0,
                  self_sufficiency_pct = py_round self_sufficiency 1,
                  result_daily_log = daily_log st \<rparr>))"

text \<open>
  \<open>simulate config\<close>, called when the process-wide generator is in state \<open>g\<close>: the outcome
  and the state in which the call leaves the generator. \<open>range(1, days + 1)\<close> is
  \<open>[1..days]\<close>, empty when \<open>days < 1\<close>.
\<close>

definition final_state :: "'g pyrandom \<Rightarrow> config \<Rightarrow> 'g sim_state" where
  "final_state R c = run_days R c [1..simulation_days c] (init_state R c)"

definition simulate :: "'g pyrandom \<Rightarrow> config \<Rightarrow> 'g \<Rightarrow> (error + result) \<times> 'g" where
  "simulate R c g = (summarize c (final_state R c), rng (final_state R c))"

subsection \<open>Configurations used below\<close>

text \<open>
  The documented domain of a configuration: areas, capacities, counts and volumes are
  non-negative, the four fractions lie between 0 and 1, and at least one day is simulated.
  \<open>simulate\<close> has no validation of its own, so this predicate occurs only as a hypothesis.
\<close>

definition valid_config :: "config \<Rightarrow> bool" where
  "valid_config c \<longleftrightarrow>
     0 \<le> catchment_area_m2 c \<and> 0 \<le> rainfall_mm_per_day c \<and>
     0 \<le> runoff_coefficient c \<and> runoff_coefficient c \<le> 1 \<and>
     0 \<le> household_size c \<and> 0 \<le> daily_water_use_L c \<and>
     0 \<le> greywater_fraction c \<and> greywater_fraction c \<le> 1 \<and>
     0 \<le> greywater_recovery_rate c \<and> greywater_recovery_rate c \<le> 1 \<and>
     0 \<le> treatment_efficiency c \<and> treatment_efficiency c \<le> 1 \<and>
     0 \<le> storage_capacity_L c \<and> 1 \<le> simulation_days c"

text \<open>The 30-day scenario: \<open>CONFIG\<close> with \<open>simulation_days = 30\<close>.\<close>

definition scenario_config :: config where
  "scenario_config = CONFIG \<lparr> simulation_days := 30 \<rparr>"

text \<open>One dry day: no catchment, no greywater, a 1000 litre tank.\<close>

definition dry_config :: config where
  "dry_config = CONFIG \<lparr> catchment_area_m2 := 0, greywater_fraction := 0,
     storage_capacity_L := 1000, simulation_days := 1 \<rparr>"

text \<open>A configuration outside the documented domain: a negative tank capacity.\<close>

definition negative_capacity_config :: config where
  "negative_capacity_config = CONFIG \<lparr> storage_capacity_L := - 100, simulation_days := 1 \<rparr>"

text \<open>The generator state after \<open>n\<close> draws of \<open>random.gauss(1.0, 0.15)\<close> from state \<open>g\<close>.\<close>

definition after_draws :: "'g pyrandom \<Rightarrow> nat \<Rightarrow> 'g \<Rightarrow> 'g" where
  "after_draws R n g = ((\<lambda>h. snd (gauss R 1 (15 / 100) h)) ^^ n) g"

section \<open>The classification routes of app.py\<close>

text \<open>
  A submitted value, by what Python's \<open>float()\<close> makes of it: \<open>Numeric x\<close> when \<open>float\<close>
  returns \<open>x\<close>, \<open>Malformed msg\<close> when it raises (\<open>ValueError\<close> on a non-numeric string,
  \<open>TypeError\<close> on a JSON null, list or object) with message \<open>msg\<close>. A form or a JSON
  object is a map from field names to submitted values.
\<close>

datatype raw_value = Numeric real | Malformed string

type_synonym fields = "string \<rightharpoonup> raw_value"

text \<open>\<open>float(d.get(key, 0))\<close>: a missing key reads as the default 0.\<close>

definition get_float :: "fields \<Rightarrow> string \<Rightarrow> string + real" where
  "get_float d key =
     (case d key of None \<Rightarrow> Inr 0 | Some (Numeric x) \<Rightarrow> Inr x | Some (Malformed msg) \<Rightarrow> Inl msg)"

text \<open>
  The four conversions at the head of both routes (lines 71 to 74 and 186 to 189), in
  their order; the first one that raises decides the message.
\<close>

definition read_fields :: "fields \<Rightarrow> string + (real \<times> real \<times> real \<times> real)" where
  "read_fields d =
     (case get_float d ''ph'' of Inl e \<Rightarrow> Inl e | Inr ph \<Rightarrow>
      (case get_float d ''turbidity'' of Inl e \<Rightarrow> Inl e | Inr turbidity \<Rightarrow>
       (case get_float d ''temperature'' of Inl e \<Rightarrow> Inl e | Inr temperature \<Rightarrow>
        (case get_float d ''tds'' of Inl e \<Rightarrow> Inl e | Inr tds \<Rightarrow>
           Inr (ph, turbidity, temperature, tds)))))"

record classification =
  prediction :: int
  label :: string
  confidence :: real
  probabilities :: "(string \<times> real) list"

text \<open>
  \<open>water_model.predict\<close> is imported by app.py and is not among the source files: it is
  a parameter \<open>wm\<close>, returning either an error message (the dictionary with the key
  \<open>error\<close>, or an exception, which both routes catch) or a classification.
\<close>

type_synonym water_model = "real \<Rightarrow> real \<Rightarrow> real \<Rightarrow> real \<Rightarrow> string + classification"

text \<open>A row of the table \<open>water_quality\<close> (without its timestamp).\<close>

record reading_row =
  row_ph :: real
  row_turbidity :: real
  row_temperature :: real
  row_tds :: real
  row_prediction :: int
  row_label :: string
  row_confidence :: real

datatype page = Error_page string | Result_page classification real real real real

text \<open>The route \<open>/predict\<close>: the rendered page and the table afterwards.\<close>

definition predict :: "water_model \<Rightarrow> fields \<Rightarrow> reading_row list \<Rightarrow> page \<times> reading_row list" where
  "predict wm form db =
     (case read_fields form of Inl e \<Rightarrow> (Error_page e, db)
      | Inr (ph, turbidity, temperature, tds) \<Rightarrow>
        (case wm ph turbidity temperature tds of Inl e \<Rightarrow> (Error_page e, db)
         | Inr res \<Rightarrow>
             (Result_page res ph turbidity temperature tds,
              db @ [\<lparr> row_ph = ph, row_turbidity = turbidity, row_temperature = temperature,
                      row_tds = tds, row_prediction = prediction res, row_label = label res,
                      row_confidence = confidence res \<rparr>])))"

datatype json_response = Json_error string | Json_result classification

text \<open>
  The route \<open>/api/predict\<close>; the body is \<open>None\<close> when the request carries no JSON
  object, and then \<open>data.get\<close> raises.
\<close>

definition api_predict :: "water_model \<Rightarrow> fields option \<Rightarrow> json_response" where
  "api_predict wm body =
     (case body of None \<Rightarrow> Json_error ''no JSON object''
      | Some data \<Rightarrow>
        (case read_fields data of Inl e \<Rightarrow> Json_error e
         | Inr (ph, turbidity, temperature, tds) \<Rightarrow>
           (case wm ph turbidity temperature tds of Inl e \<Rightarrow> Json_error e
            | Inr res \<Rightarrow> Json_result res)))"

fun is_error_page :: "page \<Rightarrow> bool" where
  "is_error_page (Error_page e) = True"
| "is_error_page (Result_page res ph turbidity temperature tds) = False"

fun is_json_error :: "json_response \<Rightarrow> bool" where
  "is_json_error (Json_error e) = True"
| "is_json_error (Json_result res) = False"

text \<open>The reading a route hands to the classifier for a field: the number, or the default 0.\<close>

definition submitted :: "fields \<Rightarrow> string \<Rightarrow> real" where
  "submitted d key = (case d key of Some (Numeric x) \<Rightarrow> x | _ \<Rightarrow> 0)"

definition well_typed :: "fields \<Rightarrow> bool" where
  "well_typed d \<longleftrightarrow>
     (\<forall>key \<in> {''ph'', ''turbidity'', ''temperature'', ''tds''}. \<forall>msg. d key \<noteq> Some (Malformed msg))"

text \<open>
  Modelled from the spec: the table \<open>LABELS\<close>, which app.py imports and which is not among
  the source files; the three label names of the classifier contract.
\<close>

definition LABELS :: "int \<Rightarrow> string" where
  "LABELS l = (if l = 0 then ''Safe for Reuse'' else if l = 1 then ''Needs Treatment'' else ''Unsafe'')"

text \<open>The labelling rule of \<open>generate_sample_data\<close> in \<open>train_model.py\<close> (lines 38 to 50).\<close>

definition rule_label :: "real \<Rightarrow> real \<Rightarrow> real \<Rightarrow> real \<Rightarrow> int" where
  "rule_label ph turbidity temperature tds =
     (if 65 / 10 \<le> ph \<and> ph \<le> 85 / 10 \<and> turbidity < 10 \<and>
         15 \<le> temperature \<and> temperature \<le> 30 \<and> tds < 500 then 0
      else if 4 \<le> ph \<and> ph \<le> 10 \<and> turbidity < 50 \<and>
         5 \<le> temperature \<and> temperature \<le> 40 \<and> tds < 800 then 1
      else 2)"

text \<open>
  Modelled from the spec: \<open>water_model.predict\<close>, which is not among the source files. The
  stand-in follows the classifier contract of the specification: a reading outside the
  ranges of the four measurements (pH 0 to 14, turbidity 0 to 100, temperature 0 to 40,
  dissolved solids 0 to 1000) is an error; any other reading gets one of the three labels,
  here the one of the labelling rule, with probabilities that sum to 1. It is used only
  to evaluate the routes at concrete requests.
\<close>

definition contract_model :: water_model where
  "contract_model ph turbidity temperature tds =
     (if 0 \<le> ph \<and> ph \<le> 14 \<and> 0 \<le> turbidity \<and> turbidity \<le> 100 \<and>
         0 \<le> temperature \<and> temperature \<le> 40 \<and> 0 \<le> tds \<and> tds \<le> 1000
      then (let l = rule_label ph turbidity temperature tds
            in Inr \<lparr> prediction = l, label = LABELS l, confidence = 1,
                     probabilities = map (\<lambda>k. (LABELS k, if k = l then 1 else 0)) [0, 1, 2] \<rparr>)
      else Inl ''reading out of range'')"

text \<open>A form whose \<open>ph\<close> field is not a number.\<close>

definition malformed_ph :: fields where
  "malformed_ph = [''ph'' \<mapsto> Malformed ''could not convert string to float'']"

section \<open>Properties of the simulation\<close>

subsection \<open>The loop, field by field\<close>

lemma day_step_fields [simp]:
  "storage (day_step R c dy st) =
     storage_after (storage_capacity_L c) (storage st) (day_treated R c dy (rng st)) (day_demand c)"
  "total_demand (day_step R c dy st) = total_demand st + day_demand c"
  "total_treated (day_step R c dy st) = total_treated st + day_treated R c dy (rng st)"
  "total_rainwater (day_step R c dy st) = total_rainwater st + day_rain_L R c dy (rng st)"
  "total_greywater (day_step R c dy st) = total_greywater st + day_grey_L c"
  "total_deficit (day_step R c dy st) = total_deficit st +
     day_deficit (storage_capacity_L c) (storage st) (day_treated R c dy (rng st)) (day_demand c)"
  "total_overflow (day_step R c dy st) = total_overflow st +
     spilled (storage_capacity_L c) (storage st) (day_treated R c dy (rng st))"
  "rng (day_step R c dy st) = snd (get_monthly_rainfall R dy (rainfall_mm_per_day c) (rng st))"
  by (simp_all add: day_step_def Let_def)

lemma day_step_log:
  "daily_log (day_step R c dy st) = daily_log st @
     [\<lparr> day = dy, rainfall_L = day_rain_L R c dy (rng st), greywater_L = day_grey_L c,
        treated_L = day_treated R c dy (rng st),
        storage_L = storage_after (storage_capacity_L c) (storage st)
          (day_treated R c dy (rng st)) (day_demand c),
        deficit_L = day_deficit (storage_capacity_L c) (storage st)
          (day_treated R c dy (rng st)) (day_demand c) \<rparr>]"
  by (simp add: day_step_def Let_def)

lemma run_days_Nil [simp]: "run_days R c [] st = st"
  by (simp add: run_days_def)

lemma run_days_Cons [simp]: "run_days R c (d # ds) st = run_days R c ds (day_step R c d st)"
  by (simp add: run_days_def)

lemma total_demand_run:
  "total_demand (run_days R c ds st) = total_demand st + of_nat (length ds) * day_demand c"
  by (induction ds arbitrary: st) (simp_all add: algebra_simps)

subsection \<open>The month of a day\<close>

text \<open>The selected month is always a key of \<open>MONTHLY_RAINFALL\<close>: the lookup cannot fail.\<close>

lemma rainfall_month_range: "1 \<le> rainfall_month d \<and> rainfall_month d \<le> 12"
  by (simp add: rainfall_month_def)

lemma rainfall_month_key: "MONTHLY_RAINFALL (rainfall_month d) \<noteq> None"
proof -
  have "rainfall_month d \<in> {1, 2, 3, 4, 5, 6, 7, 8, 9, 10, 11, 12}"
    using rainfall_month_range [of d] by (simp only: insert_iff empty_iff) presburger
  then show ?thesis
    by (elim insertE emptyE) (simp_all add: MONTHLY_RAINFALL_def)
qed

text \<open>
  C3. The claim has day 30 in month 1. \<open>get_monthly_rainfall\<close> puts it in month 2, with
  factor 0.8 / 5 instead of 1.2 / 5, although the snapshot line of \<open>simulate\<close> and
  \<open>print_monthly_breakdown\<close> both count day 30 in the first month (index 0): with base 80
  and noise 1 the rainfall of day 30 is 12.8 and not 19.2.
\<close>

theorem rainfall_month_day_30:
  "rainfall_month 30 = 2 \<and> snapshot_month_index 30 = 0 \<and> in_breakdown_month 0 30 \<and>
   get_monthly_rainfall mean_random 30 80 0 = (64 / 5, 1)"
  by (simp add: rainfall_month_def snapshot_month_index_def in_breakdown_month_def
      get_monthly_rainfall_def MONTHLY_RAINFALL_def mean_random_def)

subsection \<open>Zero demand\<close>

text \<open>
  C2. With \<open>household_size = 0\<close> the total demand is 0 and \<open>simulate\<close> raises
  \<open>ZeroDivisionError\<close> at the division by \<open>total_demand\<close>, whatever the generator: no
  result with \<open>supply_rate_pct = 0\<close> is returned.
\<close>

theorem simulate_zero_household_raises:
  "fst (simulate R (CONFIG \<lparr> household_size := 0 \<rparr>) g) = Inl ZeroDivisionError"
  by (simp add: simulate_def final_state_def summarize_def total_demand_run init_state_def
      day_demand_def)

subsection \<open>Conservation in one day\<close>




subsection \<open>Invariants of the loop\<close>

lemma rainfall_nonneg: "0 \<le> fst (get_monthly_rainfall R d b g)"
  by (simp add: get_monthly_rainfall_def Let_def split: prod.split)

lemma rainfall_rng:
  "snd (get_monthly_rainfall R d b g) = snd (gauss R 1 (15 / 100) g)"
  by (simp add: get_monthly_rainfall_def Let_def split: prod.split)

lemma valid_rain_nonneg: "valid_config c \<Longrightarrow> 0 \<le> day_rain_L R c dy g"
  by (simp add: day_rain_L_def calculate_rainwater_def valid_config_def rainfall_nonneg)

lemma valid_grey_nonneg: "valid_config c \<Longrightarrow> 0 \<le> day_grey_L c"
  by (simp add: day_grey_L_def calculate_greywater_def valid_config_def)

lemma valid_treated_nonneg: "valid_config c \<Longrightarrow> 0 \<le> day_treated R c dy g"
  using valid_rain_nonneg [of c R dy g] valid_grey_nonneg [of c]
  by (simp add: day_treated_def apply_treatment_def valid_config_def)

lemma valid_demand_nonneg: "valid_config c \<Longrightarrow> 0 \<le> day_demand c"
  by (simp add: day_demand_def valid_config_def)

lemma storage_after_nonneg: "0 \<le> storage_after cap s t d"
  by (simp add: storage_after_def day_supply_def)

lemma storage_after_le_cap: "0 \<le> cap \<Longrightarrow> 0 \<le> d \<Longrightarrow> storage_after cap s t d \<le> cap"
  by (auto simp add: storage_after_def day_supply_def filled_def)

lemma day_deficit_nonneg: "0 \<le> day_deficit cap s t d"
  by (simp add: day_deficit_def)

lemma spilled_nonneg: "0 \<le> spilled cap s t"
  by (simp add: spilled_def)

lemma filled_bounds: "0 \<le> s \<Longrightarrow> 0 \<le> t \<Longrightarrow> 0 \<le> cap \<Longrightarrow> 0 \<le> filled cap s t \<and> filled cap s t \<le> cap"
  by (simp add: filled_def)

lemma storage_run_bounds:
  assumes "0 \<le> storage_capacity_L c" "0 \<le> day_demand c"
    and "0 \<le> storage st" "storage st \<le> storage_capacity_L c"
  shows "0 \<le> storage (run_days R c ds st) \<and> storage (run_days R c ds st) \<le> storage_capacity_L c"
  using assms(3,4)
proof (induction ds arbitrary: st)
  case Nil
  then show ?case by simp
next
  case (Cons d ds)
  show ?case
    unfolding run_days_Cons
    by (rule Cons.IH) (simp_all add: storage_after_nonneg storage_after_le_cap assms(1,2))
qed

lemma log_days_run:
  "map day (daily_log (run_days R c ds st)) = map day (daily_log st) @ ds"
  by (induction ds arbitrary: st) (simp_all add: day_step_log)

lemma log_storage_run:
  assumes "0 \<le> storage_capacity_L c" "0 \<le> day_demand c"
    and "\<forall>r \<in> set (daily_log st). 0 \<le> storage_L r \<and> storage_L r \<le> storage_capacity_L c"
  shows "\<forall>r \<in> set (daily_log (run_days R c ds st)).
           0 \<le> storage_L r \<and> storage_L r \<le> storage_capacity_L c"
  using assms(3)
proof (induction ds arbitrary: st)
  case Nil
  then show ?case by simp
next
  case (Cons d ds)
  show ?case
    unfolding run_days_Cons
    by (rule Cons.IH)
      (use Cons.prems in \<open>auto simp add: day_step_log storage_after_nonneg storage_after_le_cap assms(1,2)\<close>)
qed

lemma rng_run: "rng (run_days R c ds st) = after_draws R (length ds) (rng st)"
proof (induction ds arbitrary: st)
  case Nil
  then show ?case by (simp add: after_draws_def)
next
  case (Cons d ds)
  then show ?case
    by (simp add: after_draws_def rainfall_rng funpow_Suc_right del: funpow.simps)
qed

lemma round_half_even_of_int: "round_half_even (of_int n) = n"
  by (simp add: round_half_even_def)

lemma round_half_even_lower: "0 \<le> x \<Longrightarrow> 0 \<le> round_half_even x"
  by (simp add: round_half_even_def Let_def)

lemma round_half_even_upper:
  assumes "x \<le> of_int n"
  shows "round_half_even x \<le> n"
proof (cases "\<lfloor>x\<rfloor> = n")
  case True
  then have "x = of_int n" using assms by linarith
  then show ?thesis by (simp add: round_half_even_of_int)
next
  case False
  moreover have "\<lfloor>x\<rfloor> \<le> n" using assms by (simp add: floor_le_iff)
  ultimately have "\<lfloor>x\<rfloor> + 1 \<le> n" by simp
  then show ?thesis by (simp add: round_half_even_def Let_def)
qed

lemma py_round_1_bounds:
  assumes "0 \<le> x" "x \<le> 100"
  shows "0 \<le> py_round x 1 \<and> py_round x 1 \<le> 100"
proof -
  have "0 \<le> round_half_even (x * 10)" using assms(1) by (simp add: round_half_even_lower)
  moreover have "round_half_even (x * 10) \<le> 1000"
    using round_half_even_upper [of "x * 10" 1000] assms(2) by simp
  ultimately show ?thesis by (simp add: py_round_def)
qed

lemma total_treated_run_nonneg:
  "valid_config c \<Longrightarrow> 0 \<le> total_treated st \<Longrightarrow> 0 \<le> total_treated (run_days R c ds st)"
proof (induction ds arbitrary: st)
  case Nil
  then show ?case by simp
next
  case (Cons d ds)
  show ?case
    unfolding run_days_Cons
    by (rule Cons.IH) (use Cons.prems valid_treated_nonneg [of c R d "rng st"] in simp_all)
qed

lemma summarize_Inr:
  assumes "total_demand st \<noteq> 0" "simulation_days c \<noteq> 0"
  shows "\<exists>r. summarize c st = Inr r \<and> result_daily_log r = daily_log st \<and>
           total_demand_L r = py_round (total_demand st) 0 \<and>
           self_sufficiency_pct r = py_round (min 100 (total_treated st / total_demand st * 100)) 1"
  using assms by (simp add: summarize_def Let_def)

lemma final_total_demand:
  "total_demand (final_state R c) = of_int (max 0 (simulation_days c)) * day_demand c"
  by (simp add: final_state_def total_demand_run init_state_def max_def)

lemma final_log_days: "map day (daily_log (final_state R c)) = [1..simulation_days c]"
  by (simp add: final_state_def log_days_run init_state_def)

lemma valid_CONFIG_days: "1 \<le> n \<Longrightarrow> valid_config (CONFIG \<lparr> simulation_days := n \<rparr>)"
  by (simp add: valid_config_def CONFIG_def)

subsection \<open>The tank level\<close>

text \<open>
  C4. For a configuration in its documented domain: the tank starts at 30 percent of the
  capacity with overflow and deficit at 0; after any number of days the level lies between
  0 and the capacity; and in every day from a state within these bounds, the level after
  the inflow is clamped to the capacity and the level at the end of the day is again within
  the bounds, the whole excess over the capacity being added to the cumulative overflow.
\<close>

theorem tank_invariant:
  assumes "valid_config c"
  shows "storage (init_state R c) = storage_capacity_L c * (30 / 100) \<and>
     total_overflow (init_state R c) = 0 \<and> total_deficit (init_state R c) = 0 \<and>
     (\<forall>n. 0 \<le> storage (run_days R c [1..n] (init_state R c)) \<and>
          storage (run_days R c [1..n] (init_state R c)) \<le> storage_capacity_L c) \<and>
     (\<forall>st dy. 0 \<le> storage st \<and> storage st \<le> storage_capacity_L c \<longrightarrow>
        (let cap = storage_capacity_L c; t = day_treated R c dy (rng st);
             st' = day_step R c dy st
         in 0 \<le> filled cap (storage st) t \<and> filled cap (storage st) t \<le> cap \<and>
            0 \<le> storage st' \<and> storage st' \<le> cap \<and>
            filled cap (storage st) t + (total_overflow st' - total_overflow st) = storage st + t \<and>
            (cap < storage st + t \<longrightarrow>
               filled cap (storage st) t = cap \<and>
               total_overflow st' = total_overflow st + (storage st + t - cap))))"
proof -
  have cap: "0 \<le> storage_capacity_L c" using assms by (simp add: valid_config_def)
  have dem: "0 \<le> day_demand c" using assms by (rule valid_demand_nonneg)
  have init: "0 \<le> storage (init_state R c)" "storage (init_state R c) \<le> storage_capacity_L c"
    using cap by (simp_all add: init_state_def)
  have run: "\<forall>n. 0 \<le> storage (run_days R c [1..n] (init_state R c)) \<and>
          storage (run_days R c [1..n] (init_state R c)) \<le> storage_capacity_L c"
    using storage_run_bounds [OF cap dem init] by blast
  have step: "0 \<le> filled (storage_capacity_L c) (storage st) (day_treated R c dy (rng st)) \<and>
      filled (storage_capacity_L c) (storage st) (day_treated R c dy (rng st)) \<le> storage_capacity_L c \<and>
      0 \<le> storage (day_step R c dy st) \<and> storage (day_step R c dy st) \<le> storage_capacity_L c \<and>
      filled (storage_capacity_L c) (storage st) (day_treated R c dy (rng st)) +
        (total_overflow (day_step R c dy st) - total_overflow st)
        = storage st + day_treated R c dy (rng st) \<and>
      (storage_capacity_L c < storage st + day_treated R c dy (rng st) \<longrightarrow>
        filled (storage_capacity_L c) (storage st) (day_treated R c dy (rng st)) = storage_capacity_L c \<and>
        total_overflow (day_step R c dy st)
          = total_overflow st + (storage st + day_treated R c dy (rng st) - storage_capacity_L c))"
    if "0 \<le> storage st" "storage st \<le> storage_capacity_L c" for st dy
    using that cap dem valid_treated_nonneg [OF assms, of R dy "rng st"]
    by (simp add: filled_bounds storage_after_nonneg storage_after_le_cap)
       (simp add: filled_def spilled_def)
  show ?thesis
    using run step by (simp add: init_state_def Let_def)
qed

theorem tank_invariant_witness:
  "valid_config scenario_config \<and>
   0 \<le> storage (final_state mean_random scenario_config) \<and>
   storage (final_state mean_random scenario_config) \<le> storage_capacity_L scenario_config"
proof -
  have v: "valid_config scenario_config"
    by (simp add: scenario_config_def valid_CONFIG_days)
  show ?thesis
    using v tank_invariant [OF v, of mean_random]
    by (simp add: final_state_def)
qed

subsection \<open>The 30-day scenario\<close>

text \<open>
  C7. With \<open>CONFIG\<close> run for 30 days, whatever the generator draws, \<open>simulate\<close> returns a
  result whose log has exactly 30 records with day indices 1 to 30 in order, every recorded
  storage level between 0 and 40000, and \<open>total_demand_L = 20250\<close>.
\<close>

theorem scenario_30_days:
  "\<exists>r. fst (simulate R scenario_config g) = Inr r \<and>
       length (result_daily_log r) = 30 \<and>
       map day (result_daily_log r) = [1..30] \<and>
       (\<forall>rec \<in> set (result_daily_log r). 0 \<le> storage_L rec \<and> storage_L rec \<le> 40000) \<and>
       total_demand_L r = 20250"
proof -
  let ?c = scenario_config and ?st = "final_state R scenario_config"
  have days: "simulation_days ?c = 30" and cap: "storage_capacity_L ?c = 40000"
    and dem: "day_demand ?c = 675"
    by (simp_all add: scenario_config_def CONFIG_def day_demand_def)
  have td: "total_demand ?st = 20250"
    by (simp add: final_total_demand days dem)
  obtain r where r: "summarize ?c ?st = Inr r" "result_daily_log r = daily_log ?st"
      "total_demand_L r = py_round (total_demand ?st) 0"
    using summarize_Inr [of ?st ?c] td days by auto
  have idx: "map day (daily_log ?st) = [1..30]"
    using final_log_days [of R ?c] by (simp add: days)
  then have "length (map day (daily_log ?st)) = 30" by simp
  then have len: "length (daily_log ?st) = 30" by simp
  have bounds: "\<forall>rec \<in> set (daily_log ?st). 0 \<le> storage_L rec \<and> storage_L rec \<le> 40000"
    using log_storage_run [of ?c "init_state R ?c" R "[1..30]"]
    by (simp add: cap dem final_state_def days init_state_def)
  have "py_round (total_demand ?st) 0 = 20250"
    using round_half_even_of_int [of 20250] by (simp add: td py_round_def)
  then show ?thesis
    using r idx len bounds by (simp add: simulate_def)
qed

theorem scenario_30_days_witness:
  "\<not> isl (fst (simulate mean_random scenario_config 0)) \<and>
   result_daily_log (projr (fst (simulate mean_random scenario_config 0))) \<noteq> [] \<and>
   storage_L (hd (result_daily_log (projr (fst (simulate mean_random scenario_config 0))))) \<le> 40000"
proof -
  obtain r where r: "fst (simulate mean_random scenario_config 0) = Inr r"
    "length (result_daily_log r) = 30"
    "\<forall>rec \<in> set (result_daily_log r). 0 \<le> storage_L rec \<and> storage_L rec \<le> 40000"
    using scenario_30_days [of mean_random 0] by blast
  from r(2) have ne: "result_daily_log r \<noteq> []" by auto
  then have "hd (result_daily_log r) \<in> set (result_daily_log r)" by simp
  with r(3) have "storage_L (hd (result_daily_log r)) \<le> 40000" by blast
  with r(1) ne show ?thesis by simp
qed

subsection \<open>The random generator\<close>

text \<open>
  C5, as stated, fails in its second half: the stream is the process-wide generator. A
  caller who had that generator in state 7 finds it in another state after \<open>simulate\<close>.
\<close>

theorem global_generator_counterexample:
  "snd (simulate mean_random dry_config 7) \<noteq> 7"
  by (simp add: simulate_def final_state_def rng_run init_state_def after_draws_def
      mean_random_def dry_config_def rainfall_rng)

text \<open>
  C5, amended. Two calls of \<open>simulate\<close> with the same configuration return the same
  outcome, field for field and with the whole ordered log, whatever the state of the
  process-wide generator before each call (there is no seed argument: the seed is the
  constant 42); the stream is that process-wide generator, reseeded at the start of the
  call and left, when the call ends, one draw further for each simulated day.
\<close>

theorem simulate_reproducible:
  "fst (simulate R c g1) = fst (simulate R c g2) \<and>
   snd (simulate R c g) = after_draws R (nat (simulation_days c)) (seed R 42)"
  by (simp add: simulate_def final_state_def rng_run init_state_def)

text \<open>
  C10. The outcome of \<open>simulate\<close>, and the state in which it leaves the generator, depend
  on the configuration only: the call starts from the generator state installed by
  \<open>random.seed(42)\<close>, so the state \<open>g\<close> found at the call, whatever earlier calls or other
  users of the generator made of it, has no influence, and the call has no seed argument.
\<close>

theorem simulate_depends_on_config_only:
  "simulate R c g1 = simulate R c g2 \<and> rng (init_state R c) = seed R 42"
  by (simp add: simulate_def init_state_def)

subsection \<open>Configurations outside the documented domain\<close>

lemma simulate_Inr:
  assumes "1 \<le> simulation_days c" "day_demand c \<noteq> 0"
  shows "\<exists>r. fst (simulate R c g) = Inr r \<and> result_daily_log r = daily_log (final_state R c)"
proof -
  have "total_demand (final_state R c) \<noteq> 0"
    using assms by (simp add: final_total_demand max_def)
  moreover have "simulation_days c \<noteq> 0" using assms(1) by simp
  ultimately show ?thesis
    using summarize_Inr [of "final_state R c" c] by (auto simp add: simulate_def)
qed

text \<open>
  C6, as stated, fails: with a negative tank capacity \<open>simulate\<close> raises nothing and
  returns a result with the full log of the one simulated day.
\<close>

theorem no_validation_counterexample:
  "\<not> valid_config negative_capacity_config \<and>
   \<not> isl (fst (simulate mean_random negative_capacity_config 0)) \<and>
   map day (result_daily_log (projr (fst (simulate mean_random negative_capacity_config 0)))) = [1]"
proof -
  have d: "1 \<le> simulation_days negative_capacity_config" "day_demand negative_capacity_config \<noteq> 0"
    "simulation_days negative_capacity_config = 1"
    by (simp_all add: negative_capacity_config_def CONFIG_def day_demand_def)
  obtain r where r: "fst (simulate mean_random negative_capacity_config 0) = Inr r"
    "result_daily_log r = daily_log (final_state mean_random negative_capacity_config)"
    using simulate_Inr [OF d(1,2), of mean_random 0] by blast
  have "map day (result_daily_log r) = [1]"
    using final_log_days [of mean_random negative_capacity_config]
    by (simp add: r(2) d(3))
  moreover have "\<not> valid_config negative_capacity_config"
    by (simp add: valid_config_def negative_capacity_config_def)
  ultimately show ?thesis using r(1) by simp
qed

text \<open>
  C6, amended. \<open>simulate\<close> checks no field of the configuration and has no configuration
  error: for every configuration with at least one day and a non-zero daily demand, inside
  the documented domain or not, it simulates every day and returns a result whose log
  holds the days 1 to \<open>simulation_days\<close>.
\<close>

theorem simulate_runs_unvalidated:
  assumes "1 \<le> simulation_days c" "day_demand c \<noteq> 0"
  shows "\<exists>r. fst (simulate R c g) = Inr r \<and>
           map day (result_daily_log r) = [1..simulation_days c]"
  using simulate_Inr [OF assms, of R g] final_log_days [of R c] by auto

theorem simulate_runs_unvalidated_witness:
  "1 \<le> simulation_days negative_capacity_config \<and> day_demand negative_capacity_config \<noteq> 0 \<and>
   storage_capacity_L negative_capacity_config < 0 \<and>
   \<not> isl (fst (simulate mean_random negative_capacity_config 0))"
proof -
  have d: "1 \<le> simulation_days negative_capacity_config" "day_demand negative_capacity_config \<noteq> 0"
    by (simp_all add: negative_capacity_config_def CONFIG_def day_demand_def)
  have "storage_capacity_L negative_capacity_config < 0"
    by (simp add: negative_capacity_config_def)
  then show ?thesis
    using d simulate_runs_unvalidated [OF d, of mean_random 0] by auto
qed

subsection \<open>Totals and self-sufficiency\<close>

text \<open>
  C8. For a configuration in its documented domain, every day of the loop leaves each of
  the totals of rainwater, greywater, treated volume, demand and deficit at least as large
  as it was; and when the total demand of the run is positive, \<open>simulate\<close> returns a result
  with \<open>self_sufficiency_pct\<close> between 0 and 100.
\<close>

theorem totals_monotone_and_bounded:
  assumes "valid_config c"
  shows "(\<forall>st dy. let st' = day_step R c dy st in
            total_rainwater st \<le> total_rainwater st' \<and>
            total_greywater st \<le> total_greywater st' \<and>
            total_treated st \<le> total_treated st' \<and>
            total_demand st \<le> total_demand st' \<and>
            total_deficit st \<le> total_deficit st') \<and>
         (0 < total_demand (final_state R c) \<longrightarrow>
            (\<exists>r. fst (simulate R c g) = Inr r \<and>
                 0 \<le> self_sufficiency_pct r \<and> self_sufficiency_pct r \<le> 100))"
proof -
  have mono: "total_rainwater st \<le> total_rainwater (day_step R c dy st) \<and>
            total_greywater st \<le> total_greywater (day_step R c dy st) \<and>
            total_treated st \<le> total_treated (day_step R c dy st) \<and>
            total_demand st \<le> total_demand (day_step R c dy st) \<and>
            total_deficit st \<le> total_deficit (day_step R c dy st)" for st dy
    using valid_rain_nonneg [OF assms, of R dy "rng st"] valid_grey_nonneg [OF assms]
      valid_treated_nonneg [OF assms, of R dy "rng st"] valid_demand_nonneg [OF assms]
    by (simp add: day_deficit_nonneg)
  have bounded: "\<exists>r. fst (simulate R c g) = Inr r \<and>
                 0 \<le> self_sufficiency_pct r \<and> self_sufficiency_pct r \<le> 100"
    if pos: "0 < total_demand (final_state R c)"
  proof -
    let ?st = "final_state R c"
    have days: "simulation_days c \<noteq> 0" using assms by (simp add: valid_config_def)
    have tt: "0 \<le> total_treated ?st"
      unfolding final_state_def
      by (rule total_treated_run_nonneg [OF assms]) (simp add: init_state_def)
    obtain r where r: "summarize c ?st = Inr r"
      "self_sufficiency_pct r = py_round (min 100 (total_treated ?st / total_demand ?st * 100)) 1"
      using summarize_Inr [of ?st c] pos days by auto
    have "0 \<le> min 100 (total_treated ?st / total_demand ?st * 100)"
      using tt pos by simp
    then have "0 \<le> self_sufficiency_pct r \<and> self_sufficiency_pct r \<le> 100"
      unfolding r(2) by (intro py_round_1_bounds) simp_all
    with r(1) show ?thesis by (simp add: simulate_def)
  qed
  show ?thesis using mono bounded by (simp add: Let_def)
qed

theorem totals_monotone_and_bounded_witness:
  "valid_config scenario_config \<and> 0 < total_demand (final_state mean_random scenario_config) \<and>
   \<not> isl (fst (simulate mean_random scenario_config 0)) \<and>
   self_sufficiency_pct (projr (fst (simulate mean_random scenario_config 0))) \<le> 100"
proof -
  have v: "valid_config scenario_config"
    by (simp add: scenario_config_def valid_CONFIG_days)
  have p: "0 < total_demand (final_state mean_random scenario_config)"
    by (simp add: final_total_demand scenario_config_def CONFIG_def day_demand_def)
  show ?thesis
    using v p totals_monotone_and_bounded [OF v, of mean_random 0] by auto
qed

section \<open>Properties of the classification routes\<close>

lemma read_fields_malformed:
  "\<not> well_typed d \<Longrightarrow> \<exists>e. read_fields d = Inl e"
  by (auto simp add: well_typed_def read_fields_def get_float_def split: option.splits raw_value.splits)

lemma read_fields_well_typed:
  "well_typed d \<Longrightarrow> read_fields d =
     Inr (submitted d ''ph'', submitted d ''turbidity'', submitted d ''temperature'', submitted d ''tds'')"
  by (auto simp add: well_typed_def read_fields_def get_float_def submitted_def
      split: option.splits raw_value.splits)

text \<open>
  C9, as stated, fails: a request with none of the four fields is not an error. Both
  routes read every missing field as 0 and classify the reading (0, 0, 0, 0); with a
  classifier that follows the contract the answer is the label Unsafe, and the route
  \<open>/predict\<close> stores the reading.
\<close>

theorem default_zero_counterexample:
  "api_predict contract_model (Some Map.empty) =
     Json_result \<lparr> prediction = 2, label = ''Unsafe'', confidence = 1,
       probabilities = [(''Safe for Reuse'', 0), (''Needs Treatment'', 0), (''Unsafe'', 1)] \<rparr> \<and>
   \<not> is_error_page (fst (predict contract_model Map.empty [])) \<and>
   length (snd (predict contract_model Map.empty [])) = 1"
  by (simp add: api_predict_def predict_def read_fields_def get_float_def contract_model_def
      rule_label_def LABELS_def)

text \<open>
  C9, amended. For every classifier: a request in which one of the four fields holds a
  value that \<open>float()\<close> rejects gets an error result from both routes, distinct from a
  classification, and nothing is stored; a request without a JSON object gets an error
  result; in every other request each missing field is read as 0, the four numbers are
  handed to the classifier unchanged and without a range check, and the answer is the
  classifier's, its error being passed on as an error result.
\<close>

theorem routes_on_submitted_values:
  "(\<not> well_typed d \<longrightarrow>
      is_error_page (fst (predict wm d db)) \<and> snd (predict wm d db) = db \<and>
      is_json_error (api_predict wm (Some d))) \<and>
   (well_typed d \<longrightarrow>
      api_predict wm (Some d) =
        (case wm (submitted d ''ph'') (submitted d ''turbidity'')
                 (submitted d ''temperature'') (submitted d ''tds'') of
           Inl e \<Rightarrow> Json_error e | Inr res \<Rightarrow> Json_result res) \<and>
      fst (predict wm d db) =
        (case wm (submitted d ''ph'') (submitted d ''turbidity'')
                 (submitted d ''temperature'') (submitted d ''tds'') of
           Inl e \<Rightarrow> Error_page e
         | Inr res \<Rightarrow> Result_page res (submitted d ''ph'') (submitted d ''turbidity'')
                        (submitted d ''temperature'') (submitted d ''tds''))) \<and>
   is_json_error (api_predict wm None)"
proof -
  have bad: "is_error_page (fst (predict wm d db)) \<and> snd (predict wm d db) = db \<and>
      is_json_error (api_predict wm (Some d))" if "\<not> well_typed d"
    using read_fields_malformed [OF that] by (auto simp add: predict_def api_predict_def)
  have good: "api_predict wm (Some d) =
        (case wm (submitted d ''ph'') (submitted d ''turbidity'')
                 (submitted d ''temperature'') (submitted d ''tds'') of
           Inl e \<Rightarrow> Json_error e | Inr res \<Rightarrow> Json_result res) \<and>
      fst (predict wm d db) =
        (case wm (submitted d ''ph'') (submitted d ''turbidity'')
                 (submitted d ''temperature'') (submitted d ''tds'') of
           Inl e \<Rightarrow> Error_page e
         | Inr res \<Rightarrow> Result_page res (submitted d ''ph'') (submitted d ''turbidity'')
                        (submitted d ''temperature'') (submitted d ''tds''))" if "well_typed d"
    by (simp add: predict_def api_predict_def read_fields_well_typed [OF that] split: sum.splits)
  show ?thesis using bad good by (simp add: api_predict_def)
qed

theorem routes_on_submitted_values_witness:
  "\<not> well_typed malformed_ph \<and> is_json_error (api_predict contract_model (Some malformed_ph)) \<and>
   is_error_page (fst (predict contract_model malformed_ph [])) \<and>
   well_typed Map.empty \<and> \<not> is_json_error (api_predict contract_model (Some Map.empty))"
proof -
  have b: "\<not> well_typed malformed_ph" by (simp add: well_typed_def malformed_ph_def)
  have g: "well_typed Map.empty" by (simp add: well_typed_def)
  have z: "contract_model (submitted Map.empty ''ph'') (submitted Map.empty ''turbidity'')
     (submitted Map.empty ''temperature'') (submitted Map.empty ''tds'') =
     Inr \<lparr> prediction = 2, label = ''Unsafe'', confidence = 1,
       probabilities = [(''Safe for Reuse'', 0), (''Needs Treatment'', 0), (''Unsafe'', 1)] \<rparr>"
    by (simp add: submitted_def contract_model_def rule_label_def LABELS_def)
  show ?thesis
    using b g routes_on_submitted_values [of malformed_ph contract_model "[]"]
      routes_on_submitted_values [of Map.empty contract_model "[]"]
    by (simp add: z)
qed

end
